theory Spec2Isabelle
  imports Main
begin

section \<open>Text\<close>

text \<open>
  A Python \<open>str\<close> is a sequence of Unicode code points, so a text is a list of code
  points. \<open>ustr_of\<close> reads an ASCII literal as such a text.
\<close>

type_synonym ustr = "nat list"

definition ustr_of :: "string \<Rightarrow> ustr" where
  "ustr_of s = map of_char s"

definition is_space :: "nat \<Rightarrow> bool" where
  \<comment> \<open>the code points \<open>str.isspace\<close> accepts, which \<open>str.strip()\<close> removes\<close>
  "is_space c \<longleftrightarrow>
     (0x9 \<le> c \<and> c \<le> 0xD) \<or> (0x1C \<le> c \<and> c \<le> 0x20) \<or> c = 0x85 \<or> c = 0xA0 \<or>
     c = 0x1680 \<or> (0x2000 \<le> c \<and> c \<le> 0x200A) \<or> c = 0x2028 \<or> c = 0x2029 \<or>
     c = 0x202F \<or> c = 0x205F \<or> c = 0x3000"

definition strip :: "ustr \<Rightarrow> ustr" where
  \<comment> \<open>\<open>s.strip()\<close>: leading and trailing whitespace removed\<close>
  "strip s = rev (dropWhile is_space (rev (dropWhile is_space s)))"

fun split_on :: "nat \<Rightarrow> ustr \<Rightarrow> ustr list" where
  \<comment> \<open>\<open>s.split(sep)\<close> for a separator of one character: one token more than separators\<close>
  "split_on sep [] = [[]]"
| "split_on sep (c # cs) =
     (if c = sep then [] # split_on sep cs
      else (case split_on sep cs of [] \<Rightarrow> [[c]] | t # ts \<Rightarrow> (c # t) # ts))"

fun join :: "nat \<Rightarrow> ustr list \<Rightarrow> ustr" where
  \<comment> \<open>\<open>sep.join(tokens)\<close>, the inverse of \<open>split_on\<close>\<close>
  "join sep [] = []"
| "join sep [t] = t"
| "join sep (t # u # us) = t @ sep # join sep (u # us)"

definition comma :: nat where
  "comma = 0x2C"

definition letter_T :: nat where
  "letter_T = 0x54"

fun py_slice_to :: "int \<Rightarrow> 'a list \<Rightarrow> 'a list" where
  \<comment> \<open>\<open>xs[:n]\<close>: the first \<open>n\<close> elements, and for a negative \<open>n\<close> all but the last \<open>-n\<close>\<close>
  "py_slice_to n xs =
     (if 0 \<le> n then take (nat n) xs else take (length xs - nat (- n)) xs)"

subsection \<open>The literals of the source\<close>

definition greeting_text :: ustr where
  \<comment> \<open>line 88, the reply to /start\<close>
  "greeting_text =
   [0x41F, 0x440, 0x438, 0x432, 0x435, 0x442, 0x1F44B, 0x21, 0x20, 0x42F, 0x20, 0x43C,
    0x43E, 0x433, 0x443, 0x20, 0x43F, 0x440, 0x435, 0x434, 0x43E, 0x441, 0x442, 0x430,
    0x432, 0x438, 0x442, 0x44C, 0x20, 0x43F, 0x440, 0x43E, 0x433, 0x43D, 0x43E, 0x437,
    0x20, 0x43F, 0x43E, 0x433, 0x43E, 0x434, 0x44B, 0x20, 0x434, 0x43B, 0x44F, 0x20, 0x432,
    0x430, 0x448, 0x435, 0x433, 0x43E, 0x20, 0x43C, 0x430, 0x440, 0x448, 0x440, 0x443,
    0x442, 0x430, 0x2E, 0x20, 0x418, 0x441, 0x43F, 0x43E, 0x43B, 0x44C, 0x437, 0x443,
    0x439, 0x442, 0x435, 0x20, 0x2F, 0x77, 0x65, 0x61, 0x74, 0x68, 0x65, 0x72, 0x2C, 0x20,
    0x447, 0x442, 0x43E, 0x431, 0x44B, 0x20, 0x443, 0x437, 0x43D, 0x430, 0x442, 0x44C,
    0x20, 0x43F, 0x43E, 0x433, 0x43E, 0x434, 0x443, 0x2E]"

definition help_text :: ustr where
  \<comment> \<open>line 92, the reply to /help\<close>
  "help_text =
   [0x41A, 0x43E, 0x43C, 0x430, 0x43D, 0x434, 0x44B, 0x3A, 0xA, 0x2F, 0x73, 0x74, 0x61,
    0x72, 0x74, 0x20, 0x2D, 0x20, 0x41D, 0x430, 0x447, 0x430, 0x442, 0x44C, 0x20, 0x440,
    0x430, 0x431, 0x43E, 0x442, 0x443, 0x20, 0x441, 0x20, 0x431, 0x43E, 0x442, 0x43E,
    0x43C, 0x1F3AC, 0xA, 0x2F, 0x68, 0x65, 0x6C, 0x70, 0x20, 0x2D, 0x20, 0x41F, 0x43E,
    0x43A, 0x430, 0x437, 0x430, 0x442, 0x44C, 0x20, 0x441, 0x43F, 0x440, 0x430, 0x432,
    0x43A, 0x443, 0x2139, 0xFE0F, 0xA, 0x2F, 0x77, 0x65, 0x61, 0x74, 0x68, 0x65, 0x72,
    0x20, 0x2D, 0x20, 0x41F, 0x43E, 0x43B, 0x443, 0x447, 0x438, 0x442, 0x44C, 0x20, 0x43F,
    0x440, 0x43E, 0x433, 0x43D, 0x43E, 0x437, 0x20, 0x43F, 0x43E, 0x433, 0x43E, 0x434,
    0x44B, 0x1F37A]"

definition ask_start_text :: ustr where
  \<comment> \<open>line 96, asks for the first city\<close>
  "ask_start_text =
   [0x412, 0x432, 0x435, 0x434, 0x438, 0x442, 0x435, 0x20, 0x43D, 0x430, 0x447, 0x430,
    0x43B, 0x44C, 0x43D, 0x44B, 0x439, 0x20, 0x433, 0x43E, 0x440, 0x43E, 0x434, 0x3A]"

definition ask_end_text :: ustr where
  \<comment> \<open>line 102, asks for the last city\<close>
  "ask_end_text =
   [0x412, 0x432, 0x435, 0x434, 0x438, 0x442, 0x435, 0x20, 0x43A, 0x43E, 0x43D, 0x435,
    0x447, 0x43D, 0x44B, 0x439, 0x20, 0x433, 0x43E, 0x440, 0x43E, 0x434, 0x3A]"

definition add_button_text :: ustr where
  \<comment> \<open>line 109, label of the add_midpoints button\<close>
  "add_button_text =
   [0x414, 0x43E, 0x431, 0x430, 0x432, 0x438, 0x442, 0x44C, 0x20, 0x43F, 0x440, 0x43E,
    0x43C, 0x435, 0x436, 0x443, 0x442, 0x43E, 0x447, 0x43D, 0x44B, 0x435, 0x20, 0x442,
    0x43E, 0x447, 0x43A, 0x438]"

definition skip_button_text :: ustr where
  \<comment> \<open>line 110, label of the skip_midpoints button\<close>
  "skip_button_text =
   [0x41F, 0x440, 0x43E, 0x43F, 0x443, 0x441, 0x442, 0x438, 0x442, 0x44C]"

definition ask_midpoints_choice_text :: ustr where
  \<comment> \<open>line 111, asks whether to add intermediate cities\<close>
  "ask_midpoints_choice_text =
   [0x425, 0x43E, 0x442, 0x438, 0x442, 0x435, 0x20, 0x434, 0x43E, 0x431, 0x430, 0x432,
    0x438, 0x442, 0x44C, 0x20, 0x43F, 0x440, 0x43E, 0x43C, 0x435, 0x436, 0x443, 0x442,
    0x43E, 0x447, 0x43D, 0x44B, 0x435, 0x20, 0x433, 0x43E, 0x440, 0x43E, 0x434, 0x430,
    0x3F, 0x2795]"

definition ask_midpoints_text :: ustr where
  \<comment> \<open>line 116, asks for the comma separated cities\<close>
  "ask_midpoints_text =
   [0x412, 0x432, 0x435, 0x434, 0x438, 0x442, 0x435, 0x20, 0x43F, 0x440, 0x43E, 0x43C,
    0x435, 0x436, 0x443, 0x442, 0x43E, 0x447, 0x43D, 0x44B, 0x435, 0x20, 0x433, 0x43E,
    0x440, 0x43E, 0x434, 0x430, 0x20, 0x447, 0x435, 0x440, 0x435, 0x437, 0x20, 0x437,
    0x430, 0x43F, 0x44F, 0x442, 0x443, 0x44E, 0x3A]"

definition no_midpoints_text :: ustr where
  \<comment> \<open>line 122, confirms a route without intermediate cities\<close>
  "no_midpoints_text =
   [0x41C, 0x430, 0x440, 0x448, 0x440, 0x443, 0x442, 0x20, 0x431, 0x443, 0x434, 0x435,
    0x442, 0x20, 0x43F, 0x43E, 0x441, 0x442, 0x440, 0x43E, 0x435, 0x43D, 0x20, 0x431,
    0x435, 0x437, 0x20, 0x43F, 0x440, 0x43E, 0x43C, 0x435, 0x436, 0x443, 0x442, 0x43E,
    0x447, 0x43D, 0x44B, 0x445, 0x20, 0x442, 0x43E, 0x447, 0x435, 0x43A, 0x2E]"

definition three_button_text :: ustr where
  \<comment> \<open>line 134, label of the 3_days button\<close>
  "three_button_text =
   [0x33, 0x20, 0x434, 0x43D, 0x44F]"

definition five_button_text :: ustr where
  \<comment> \<open>line 135, label of the 5_days button\<close>
  "five_button_text =
   [0x35, 0x20, 0x434, 0x43D, 0x435, 0x439]"

definition ask_days_text :: ustr where
  \<comment> \<open>line 136, asks for the forecast length\<close>
  "ask_days_text =
   [0x412, 0x44B, 0x431, 0x435, 0x440, 0x438, 0x442, 0x435, 0x20, 0x434, 0x43B, 0x438,
    0x442, 0x435, 0x43B, 0x44C, 0x43D, 0x43E, 0x441, 0x442, 0x44C, 0x20, 0x43F, 0x440,
    0x43E, 0x433, 0x43D, 0x43E, 0x437, 0x430, 0x3A]"

definition failure_text :: ustr where
  \<comment> \<open>line 152, the generic failure notice\<close>
  "failure_text =
   [0x41F, 0x440, 0x43E, 0x438, 0x437, 0x43E, 0x448, 0x43B, 0x430, 0x20, 0x43E, 0x448,
    0x438, 0x431, 0x43A, 0x430, 0x2E, 0x20, 0x41F, 0x43E, 0x436, 0x430, 0x43B, 0x443,
    0x439, 0x441, 0x442, 0x430, 0x2C, 0x20, 0x43F, 0x43E, 0x43F, 0x440, 0x43E, 0x431,
    0x443, 0x439, 0x442, 0x435, 0x20, 0x43F, 0x43E, 0x437, 0x436, 0x435, 0x2E]"

definition header_prefix :: ustr where
  \<comment> \<open>line 77, the text before the city in a header line\<close>
  "header_prefix =
   [0x41F, 0x440, 0x43E, 0x433, 0x43D, 0x43E, 0x437, 0x20, 0x43F, 0x43E, 0x433, 0x43E,
    0x434, 0x44B, 0x20, 0x434, 0x43B, 0x44F, 0x20]"

definition header_suffix :: ustr where
  \<comment> \<open>line 77, the text after the city in a header line\<close>
  "header_suffix =
   [0x3A, 0xA]"

definition unavailable_line :: ustr where
  \<comment> \<open>line 79, the line shown for the marker\<close>
  "unavailable_line =
   [0x20, 0x414, 0x430, 0x43D, 0x43D, 0x44B, 0x435, 0x20, 0x43D, 0x435, 0x434, 0x43E,
    0x441, 0x442, 0x443, 0x43F, 0x43D, 0x44B, 0x20, 0x434, 0x43B, 0x44F, 0x20, 0x44D,
    0x442, 0x43E, 0x433, 0x43E, 0x20, 0x433, 0x43E, 0x440, 0x43E, 0x434, 0x430, 0x1F6D1,
    0x2E, 0xA, 0xA]"

definition degrees_suffix :: ustr where
  \<comment> \<open>line 66, the unit after the temperature range\<close>
  "degrees_suffix =
   [0x20, 0xB0, 0x43]"

definition key_Key :: ustr where
  "key_Key = ustr_of ''Key''"

definition key_DailyForecasts :: ustr where
  "key_DailyForecasts = ustr_of ''DailyForecasts''"

definition key_Date :: ustr where
  "key_Date = ustr_of ''Date''"

definition key_Temperature :: ustr where
  "key_Temperature = ustr_of ''Temperature''"

definition key_Minimum :: ustr where
  "key_Minimum = ustr_of ''Minimum''"

definition key_Maximum :: ustr where
  "key_Maximum = ustr_of ''Maximum''"

definition key_Value :: ustr where
  "key_Value = ustr_of ''Value''"

definition key_Day :: ustr where
  "key_Day = ustr_of ''Day''"

definition key_IconPhrase :: ustr where
  "key_IconPhrase = ustr_of ''IconPhrase''"

definition data_add_midpoints :: ustr where
  "data_add_midpoints = ustr_of ''add_midpoints''"

definition data_skip_midpoints :: ustr where
  "data_skip_midpoints = ustr_of ''skip_midpoints''"

definition data_3_days :: ustr where
  "data_3_days = ustr_of ''3_days''"

definition data_5_days :: ustr where
  "data_5_days = ustr_of ''5_days''"

section \<open>Python values and exceptions\<close>

text \<open>
  What \<open>response.json()\<close> returns: \<open>None\<close>, a bool, an int, a float, a str, a list or a
  dict with str keys. The float type \<open>'f\<close> is left open. A dict is an association list
  read with \<open>map_of\<close>.
\<close>

datatype 'f json =
    JNull
  | JBool bool
  | JInt int
  | JFloat 'f
  | JStr ustr
  | JArr "'f json list"
  | JObj "(ustr \<times> 'f json) list"

datatype exn = KeyError | TypeError | IndexError | AttributeError | ClientError

definition exn_bind :: "exn + 'a \<Rightarrow> ('a \<Rightarrow> exn + 'b) \<Rightarrow> exn + 'b" where
  \<comment> \<open>sequencing: an exception of the first part skips the second\<close>
  "exn_bind m f = (case m of Inl e \<Rightarrow> Inl e | Inr x \<Rightarrow> f x)"

fun map_exn :: "('a \<Rightarrow> exn + 'b) \<Rightarrow> 'a list \<Rightarrow> exn + 'b list" where
  \<comment> \<open>a list comprehension whose element expression may raise\<close>
  "map_exn f [] = Inr []"
| "map_exn f (x # xs) =
     (case f x of
        Inl e \<Rightarrow> Inl e
      | Inr y \<Rightarrow> (case map_exn f xs of Inl e \<Rightarrow> Inl e | Inr ys \<Rightarrow> Inr (y # ys)))"

fun truthy :: "('f \<Rightarrow> bool) \<Rightarrow> 'f json \<Rightarrow> bool" where
  \<comment> \<open>the truth value of a Python value; the first argument says which floats are zero\<close>
  "truthy z JNull = False"
| "truthy z (JBool b) = b"
| "truthy z (JInt i) = (i \<noteq> 0)"
| "truthy z (JFloat x) = (\<not> z x)"
| "truthy z (JStr s) = (s \<noteq> [])"
| "truthy z (JArr xs) = (xs \<noteq> [])"
| "truthy z (JObj kvs) = (kvs \<noteq> [])"

fun get_item :: "'f json \<Rightarrow> ustr \<Rightarrow> exn + 'f json" where
  \<comment> \<open>\<open>v[k]\<close> for a str \<open>k\<close>\<close>
  "get_item (JObj kvs) k = (case map_of kvs k of None \<Rightarrow> Inl KeyError | Some v \<Rightarrow> Inr v)"
| "get_item _ k = Inl TypeError"

fun get_first :: "'f json \<Rightarrow> exn + 'f json" where
  \<comment> \<open>\<open>v[0]\<close>; the keys of a parsed dict are str, so \<open>0\<close> is never among them\<close>
  "get_first (JArr []) = Inl IndexError"
| "get_first (JArr (x # xs)) = Inr x"
| "get_first (JStr []) = Inl IndexError"
| "get_first (JStr (c # cs)) = Inr (JStr [c])"
| "get_first (JObj kvs) = Inl KeyError"
| "get_first _ = Inl TypeError"

fun dict_get :: "'f json \<Rightarrow> ustr \<Rightarrow> 'f json \<Rightarrow> exn + 'f json" where
  \<comment> \<open>\<open>v.get(k, d)\<close>\<close>
  "dict_get (JObj kvs) k d = Inr (case map_of kvs k of None \<Rightarrow> d | Some v \<Rightarrow> v)"
| "dict_get _ k d = Inl AttributeError"

fun entries_upto :: "int \<Rightarrow> 'f json \<Rightarrow> exn + 'f json list" where
  \<comment> \<open>the elements of \<open>v[:n]\<close> as a loop over it meets them: a list gives its elements, a
      str its characters; nothing else can be sliced (a dict raises TypeError, from
      Python 3.12 on KeyError)\<close>
  "entries_upto n (JArr xs) = Inr (py_slice_to n xs)"
| "entries_upto n (JStr s) = Inr (map (\<lambda>c. JStr [c]) (py_slice_to n s))"
| "entries_upto n _ = Inl TypeError"

section \<open>The weather provider\<close>

text \<open>
  The provider, the HTTP library and the Python built-ins are outside the program and
  come as parameters. A request takes the world \<open>'w\<close> and gives the next one, so the
  provider may answer differently each time; a request may raise (\<open>Inl\<close>), and so may
  reading the body of a response as JSON.
\<close>

record 'f response =
  status :: int
  body :: "exn + 'f json"

record ('w, 'f) env =
  search_cities :: "'w \<Rightarrow> ustr \<Rightarrow> (exn + 'f response) \<times> 'w"
  daily_5day :: "'w \<Rightarrow> 'f json \<Rightarrow> (exn + 'f response) \<times> 'w"
  float_is_zero :: "'f \<Rightarrow> bool"
  py_str :: "'f json \<Rightarrow> ustr"
  command_name :: "ustr \<Rightarrow> string option"

definition fetch_location_key ::
  "('w, 'f) env \<Rightarrow> 'w \<Rightarrow> ustr \<Rightarrow> (exn + 'f json) \<times> 'w" where
  "fetch_location_key E w city =
     (case search_cities E w city of
        (Inl e, w') \<Rightarrow> (Inl e, w')
      | (Inr r, w') \<Rightarrow>
          if status r \<noteq> 200 then (Inr JNull, w')
          else (case body r of
                  Inl e \<Rightarrow> (Inl e, w')
                | Inr data \<Rightarrow>
                    if truthy (float_is_zero E) data
                    then (exn_bind (get_first data) (\<lambda>c. get_item c key_Key), w')
                    else (Inr JNull, w')))"

definition fetch_weather_forecast ::
  "('w, 'f) env \<Rightarrow> 'w \<Rightarrow> 'f json \<Rightarrow> (exn + 'f json) \<times> 'w" where
  "fetch_weather_forecast E w location_key =
     (case daily_5day E w location_key of
        (Inl e, w') \<Rightarrow> (Inl e, w')
      | (Inr r, w') \<Rightarrow>
          if status r \<noteq> 200 then (Inr (JArr []), w')
          else (case body r of
                  Inl e \<Rightarrow> (Inl e, w')
                | Inr data \<Rightarrow> (dict_get data key_DailyForecasts (JArr []), w')))"

section \<open>The forecast of a route\<close>

record 'f day =
  date :: ustr
  temperature :: ustr
  conditions :: "'f json"

datatype 'f forecast = NoData | Days "'f day list"

record 'f city_forecast =
  location :: ustr
  forecast :: "'f forecast"

definition fmt :: "('w, 'f) env \<Rightarrow> 'f json \<Rightarrow> ustr" where
  \<comment> \<open>a value inside an f-string: a str as it is, anything else through \<open>str()\<close>\<close>
  "fmt E v = (case v of JStr s \<Rightarrow> s | _ \<Rightarrow> py_str E v)"

definition date_part :: "'f json \<Rightarrow> exn + ustr" where
  \<comment> \<open>\<open>v.split("T")[0]\<close>\<close>
  "date_part v =
     (case v of
        JStr s \<Rightarrow> (case split_on letter_T s of [] \<Rightarrow> Inl IndexError | t # ts \<Rightarrow> Inr t)
      | _ \<Rightarrow> Inl AttributeError)"

definition temperature_value :: "'f json \<Rightarrow> ustr \<Rightarrow> exn + 'f json" where
  \<comment> \<open>\<open>entry['Temperature'][which]['Value']\<close>\<close>
  "temperature_value entry which =
     exn_bind (get_item entry key_Temperature) (\<lambda>t.
     exn_bind (get_item t which) (\<lambda>m. get_item m key_Value))"

definition day_of_entry :: "('w, 'f) env \<Rightarrow> 'f json \<Rightarrow> exn + 'f day" where
  \<comment> \<open>lines 64 to 68, the dict built from one entry, its values in the order written\<close>
  "day_of_entry E entry =
     exn_bind (exn_bind (get_item entry key_Date) date_part) (\<lambda>d.
     exn_bind (temperature_value entry key_Minimum) (\<lambda>lo.
     exn_bind (temperature_value entry key_Maximum) (\<lambda>hi.
     exn_bind (exn_bind (get_item entry key_Day) (\<lambda>dy. get_item dy key_IconPhrase)) (\<lambda>c.
       Inr \<lparr>date = d,
            temperature = fmt E lo @ ustr_of '' - '' @ fmt E hi @ degrees_suffix,
            conditions = c\<rparr>))))"

definition truncated_forecast ::
  "('w, 'f) env \<Rightarrow> 'w \<Rightarrow> 'f json \<Rightarrow> int \<Rightarrow> (exn + 'f json list) \<times> 'w" where
  \<comment> \<open>lines 60 and 61: the forecast is fetched and cut to \<open>forecast_data[:days]\<close>\<close>
  "truncated_forecast E w loc_key n =
     (case fetch_weather_forecast E w loc_key of
        (Inl e, w') \<Rightarrow> (Inl e, w')
      | (Inr forecast_data, w') \<Rightarrow> (entries_upto n forecast_data, w'))"

definition forecast_for_city ::
  "('w, 'f) env \<Rightarrow> int \<Rightarrow> 'w \<Rightarrow> ustr \<Rightarrow> (exn + 'f city_forecast) \<times> 'w" where
  \<comment> \<open>lines 55 to 71, the body of the loop of \<open>generate_forecast\<close>: what it appends\<close>
  "forecast_for_city E n w city =
     (case fetch_location_key E w city of
        (Inl e, w1) \<Rightarrow> (Inl e, w1)
      | (Inr loc_key, w1) \<Rightarrow>
          if \<not> truthy (float_is_zero E) loc_key
          then (Inr \<lparr>location = city, forecast = NoData\<rparr>, w1)
          else (case truncated_forecast E w1 loc_key n of
                  (Inl e, w2) \<Rightarrow> (Inl e, w2)
                | (Inr forecast_data, w2) \<Rightarrow>
                    (case map_exn (day_of_entry E) forecast_data of
                       Inl e \<Rightarrow> (Inl e, w2)
                     | Inr city_forecast \<Rightarrow>
                         (Inr \<lparr>location = city, forecast = Days city_forecast\<rparr>, w2))))"

fun generate_loop ::
  "('w, 'f) env \<Rightarrow> int \<Rightarrow> ustr list \<Rightarrow> 'w \<Rightarrow> 'f city_forecast list \<Rightarrow>
   (exn + 'f city_forecast list) \<times> 'w" where
  \<comment> \<open>the loop over \<open>cities\<close>, with the list \<open>forecasts\<close> built so far\<close>
  "generate_loop E n [] w forecasts = (Inr forecasts, w)"
| "generate_loop E n (city # cities) w forecasts =
     (case forecast_for_city E n w city of
        (Inl e, w') \<Rightarrow> (Inl e, w')
      | (Inr r, w') \<Rightarrow> generate_loop E n cities w' (forecasts @ [r]))"

definition generate_forecast ::
  "('w, 'f) env \<Rightarrow> 'w \<Rightarrow> ustr list \<Rightarrow> int \<Rightarrow> (exn + 'f city_forecast list) \<times> 'w" where
  "generate_forecast E w cities n = generate_loop E n cities w []"

definition format_day :: "('w, 'f) env \<Rightarrow> 'f day \<Rightarrow> ustr" where
  \<comment> \<open>line 82\<close>
  "format_day E d =
     date d @ ustr_of '': '' @ temperature d @ ustr_of '', '' @ fmt E (conditions d) @ [0xA]"

definition format_city :: "('w, 'f) env \<Rightarrow> 'f city_forecast \<Rightarrow> ustr" where
  \<comment> \<open>lines 77 to 83, what one city adds to \<open>result\<close>\<close>
  "format_city E city_data =
     header_prefix @ location city_data @ header_suffix @
     (case forecast city_data of
        NoData \<Rightarrow> unavailable_line
      | Days ds \<Rightarrow> foldl (\<lambda>result d. result @ format_day E d) [] ds) @
     [0xA]"

definition format_forecast :: "('w, 'f) env \<Rightarrow> 'f city_forecast list \<Rightarrow> ustr" where
  "format_forecast E forecast_data =
     foldl (\<lambda>result city_data. result @ format_city E city_data) [] forecast_data"

section \<open>The dialogue\<close>

text \<open>
  The state of a conversation is one of the four states of \<open>WeatherFlow\<close> or no state
  (\<open>None\<close>, the idle state); its data is a dict with the keys \<open>start_city\<close>, \<open>end_city\<close>,
  \<open>midpoints\<close> and \<open>days\<close>, a field being \<open>None\<close> while its key is absent. An update is
  a text message or a button press with its callback data. A handler gives the next
  session and what it sends, in order; sending is not part of the program and does not
  fail here.
\<close>

datatype WeatherFlow = input_start | input_end | input_midpoints | choose_forecast

record session =
  state :: "WeatherFlow option"
  start_city :: "ustr option"
  end_city :: "ustr option"
  midpoints :: "ustr list option"
  days :: "int option"

datatype update = Message ustr | CallbackQuery ustr

datatype reply =
    Answer ustr "(ustr \<times> ustr) list"  \<comment> \<open>a text and its buttons (label, callback data)\<close>
  | CallbackAnswer  \<comment> \<open>\<open>call.answer()\<close>\<close>

definition clear :: session where
  \<comment> \<open>\<open>state.clear()\<close>: no state and no data\<close>
  "clear = \<lparr>state = None, start_city = None, end_city = None, midpoints = None, days = None\<rparr>"

definition start_command :: "session \<Rightarrow> session \<times> reply list" where
  "start_command s = (s, [Answer greeting_text []])"

definition help_command :: "session \<Rightarrow> session \<times> reply list" where
  "help_command s = (s, [Answer help_text []])"

definition weather_command :: "session \<Rightarrow> session \<times> reply list" where
  "weather_command s = (s\<lparr>state := Some input_start\<rparr>, [Answer ask_start_text []])"

definition handle_start_city :: "ustr \<Rightarrow> session \<Rightarrow> session \<times> reply list" where
  "handle_start_city text s =
     (s\<lparr>start_city := Some text, state := Some input_end\<rparr>, [Answer ask_end_text []])"

definition handle_end_city :: "ustr \<Rightarrow> session \<Rightarrow> session \<times> reply list" where
  "handle_end_city text s =
     (s\<lparr>end_city := Some text, state := Some input_midpoints\<rparr>,
      [Answer ask_midpoints_choice_text
         [(add_button_text, data_add_midpoints), (skip_button_text, data_skip_midpoints)]])"

definition add_midpoints :: "session \<Rightarrow> session \<times> reply list" where
  "add_midpoints s = (s, [Answer ask_midpoints_text [], CallbackAnswer])"

definition request_forecast_days :: "session \<Rightarrow> session \<times> reply list" where
  "request_forecast_days s =
     (s\<lparr>state := Some choose_forecast\<rparr>,
      [Answer ask_days_text [(three_button_text, data_3_days), (five_button_text, data_5_days)]])"

definition skip_midpoints :: "session \<Rightarrow> session \<times> reply list" where
  "skip_midpoints s =
     (case request_forecast_days (s\<lparr>midpoints := Some []\<rparr>) of
        (s', sent) \<Rightarrow> (s', [Answer no_midpoints_text [], CallbackAnswer] @ sent))"

definition parse_midpoints :: "ustr \<Rightarrow> ustr list" where
  \<comment> \<open>line 128: \<open>[city.strip() for city in text.split(",") if city.strip()]\<close>\<close>
  "parse_midpoints text = map strip (filter (\<lambda>city. strip city \<noteq> []) (split_on comma text))"

definition handle_midpoints :: "ustr \<Rightarrow> session \<Rightarrow> session \<times> reply list" where
  "handle_midpoints text s =
     request_forecast_days (s\<lparr>midpoints := Some (parse_midpoints text)\<rparr>)"

definition route :: "session \<Rightarrow> exn + ustr list" where
  \<comment> \<open>line 145; a missing \<open>start_city\<close> or \<open>end_city\<close> is a KeyError\<close>
  "route s =
     (case start_city s of
        None \<Rightarrow> Inl KeyError
      | Some a \<Rightarrow>
          (case end_city s of
             None \<Rightarrow> Inl KeyError
           | Some b \<Rightarrow> Inr ([a] @ (case midpoints s of None \<Rightarrow> [] | Some ms \<Rightarrow> ms) @ [b])))"

definition forecast_days_selected ::
  "('w, 'f) env \<Rightarrow> ustr \<Rightarrow> session \<times> 'w \<Rightarrow> (session \<times> 'w) \<times> reply list" where
  \<comment> \<open>a KeyError of line 145 leaves the handler with \<open>days\<close> stored and nothing sent;
      every exception of lines 148 and 149 is caught and answered with the notice\<close>
  "forecast_days_selected E call_data sw =
     (case sw of (s, w) \<Rightarrow>
        let n = (if call_data = data_3_days then 3 else 5);
            s1 = s\<lparr>days := Some n\<rparr>
        in (case route s1 of
              Inl e \<Rightarrow> ((s1, w), [])
            | Inr cities \<Rightarrow>
                (case generate_forecast E w cities n of
                   (Inr forecasts, w') \<Rightarrow>
                     ((clear, w'), [Answer (format_forecast E forecasts) []])
                 | (Inl e, w') \<Rightarrow> ((clear, w'), [Answer failure_text []]))))"

definition keep :: "'w \<Rightarrow> session \<times> reply list \<Rightarrow> (session \<times> 'w) \<times> reply list" where
  \<comment> \<open>a handler that makes no request leaves the world as it is\<close>
  "keep w r = (case r of (s, sent) \<Rightarrow> ((s, w), sent))"

fun dispatch ::
  "('w, 'f) env \<Rightarrow> session \<times> 'w \<Rightarrow> update \<Rightarrow> (session \<times> 'w) \<times> reply list" where
  \<comment> \<open>the first handler, in the order of registration, whose filters accept the update
      runs; an update no handler accepts changes nothing\<close>
  "dispatch E (s, w) (Message text) =
     (if command_name E text = Some ''start'' then keep w (start_command s)
      else if command_name E text = Some ''help'' then keep w (help_command s)
      else if command_name E text = Some ''weather'' then keep w (weather_command s)
      else if state s = Some input_start then keep w (handle_start_city text s)
      else if state s = Some input_end then keep w (handle_end_city text s)
      else if state s = Some input_midpoints then keep w (handle_midpoints text s)
      else ((s, w), []))"
| "dispatch E (s, w) (CallbackQuery call_data) =
     (if state s = Some input_midpoints \<and> call_data = data_add_midpoints
      then keep w (add_midpoints s)
      else if state s = Some input_midpoints \<and> call_data = data_skip_midpoints
      then keep w (skip_midpoints s)
      else if state s = Some choose_forecast \<and> call_data \<in> {data_3_days, data_5_days}
      then forecast_days_selected E call_data (s, w)
      else ((s, w), []))"

fun states_visited :: "('w, 'f) env \<Rightarrow> session \<times> 'w \<Rightarrow> update list \<Rightarrow> WeatherFlow option list" where
  \<comment> \<open>the state before the first update and after each one\<close>
  "states_visited E sw [] = [state (fst sw)]"
| "states_visited E sw (u # us) = state (fst sw) # states_visited E (fst (dispatch E sw u)) us"

fun run :: "('w, 'f) env \<Rightarrow> session \<times> 'w \<Rightarrow> update list \<Rightarrow> (session \<times> 'w) \<times> reply list" where
  \<comment> \<open>the updates of one conversation handled one after the other\<close>
  "run E sw [] = (sw, [])"
| "run E sw (u # us) =
     (case dispatch E sw u of
        (sw', sent) \<Rightarrow> (case run E sw' us of (sw'', sent') \<Rightarrow> (sw'', sent @ sent')))"

definition is_city_text :: "('w, 'f) env \<Rightarrow> ustr \<Rightarrow> bool" where
  \<comment> \<open>a text that none of the three command handlers takes\<close>
  "is_city_text E text \<longleftrightarrow>
     command_name E text \<noteq> Some ''start'' \<and> command_name E text \<noteq> Some ''help'' \<and>
     command_name E text \<noteq> Some ''weather''"

section \<open>A provider to run the program on\<close>

text \<open>
  A small provider for concrete runs. Its world is the list of the cities searched so
  far. The search finds nothing for GarbageCity123 and otherwise one candidate whose key
  is the city name; the forecast of the key Nowhere is refused with status 503, any other
  key gets five days. It has no floats, and \<open>str()\<close> is only needed for the digits.
\<close>

definition demo_entry :: "int \<Rightarrow> unit json" where
  "demo_entry k =
     JObj [(key_Date, JStr (ustr_of ''2024-05-0'' @ [0x30 + nat k] @ ustr_of ''T07:00:00+03:00'')),
           (key_Temperature,
            JObj [(key_Minimum, JObj [(key_Value, JInt k)]),
                  (key_Maximum, JObj [(key_Value, JInt (k + 4))])]),
           (key_Day, JObj [(key_IconPhrase, JStr (ustr_of ''Sunny''))])]"

definition demo_str :: "unit json \<Rightarrow> ustr" where
  "demo_str v = (case v of JInt i \<Rightarrow> (if 0 \<le> i \<and> i < 10 then [0x30 + nat i] else ustr_of ''?'')
                 | _ \<Rightarrow> ustr_of ''?'')"

definition demo_command :: "ustr \<Rightarrow> string option" where
  "demo_command text =
     (if text = ustr_of ''/start'' then Some ''start''
      else if text = ustr_of ''/help'' then Some ''help''
      else if text = ustr_of ''/weather'' then Some ''weather''
      else None)"

definition demo_env :: "(ustr list, unit) env" where
  "demo_env =
     \<lparr>search_cities = (\<lambda>w city.
        (Inr \<lparr>status = 200,
              body = Inr (if city = ustr_of ''GarbageCity123'' then JArr []
                          else JArr [JObj [(key_Key, JStr city)]])\<rparr>,
         w @ [city])),
      daily_5day = (\<lambda>w k.
        (Inr (if k = JStr (ustr_of ''Nowhere'') then \<lparr>status = 503, body = Inl ClientError\<rparr>
              else \<lparr>status = 200,
                    body = Inr (JObj [(key_DailyForecasts, JArr (map demo_entry [1, 2, 3, 4, 5]))])\<rparr>),
         w)),
      float_is_zero = (\<lambda>x. False),
      py_str = demo_str,
      command_name = demo_command\<rparr>"

definition awaiting :: "WeatherFlow \<Rightarrow> session" where
  \<comment> \<open>a session with no data in the given state\<close>
  "awaiting st = clear\<lparr>state := Some st\<rparr>"

definition failing_env :: "(ustr list, unit) env" where
  \<comment> \<open>the same provider with a search request that raises\<close>
  "failing_env = demo_env\<lparr>search_cities := (\<lambda>w city. (Inl ClientError, w @ [city]))\<rparr>"

definition data_ready :: "session \<Rightarrow> bool" where
  \<comment> \<open>the data that the states after the first two questions rely on\<close>
  "data_ready s \<longleftrightarrow>
     (state s \<in> {Some input_end, Some input_midpoints, Some choose_forecast} \<longrightarrow>
        start_city s \<noteq> None) \<and>
     (state s \<in> {Some input_midpoints, Some choose_forecast} \<longrightarrow> end_city s \<noteq> None)"

section \<open>Splitting and trimming\<close>

lemma split_on_not_Nil: "split_on sep s \<noteq> []"
  by (induction s) (auto split: list.splits)

lemma join_Cons: "ts \<noteq> [] \<Longrightarrow> join sep (t # ts) = t @ sep # join sep ts"
  by (cases ts) simp_all

lemma join_split_on: "join sep (split_on sep s) = s"
proof (induction s)
  case Nil
  show ?case by simp
next
  case (Cons c cs)
  show ?case
  proof (cases "c = sep")
    case True
    with Cons show ?thesis by (simp add: join_Cons split_on_not_Nil)
  next
    case False
    obtain t ts where ts: "split_on sep cs = t # ts"
      using split_on_not_Nil [of sep cs] by (cases "split_on sep cs") auto
    with Cons False show ?thesis by (cases ts) auto
  qed
qed

lemma sep_notin_split_on: "sep \<notin> set (concat (split_on sep s))"
  by (induction s) (auto split: list.splits)

lemma strip_decompose:
  "\<exists>l r. t = l @ strip t @ r \<and> list_all is_space l \<and> list_all is_space r"
proof -
  let ?a = "dropWhile is_space t"
  have a: "t = takeWhile is_space t @ ?a" by simp
  have b: "rev ?a = takeWhile is_space (rev ?a) @ dropWhile is_space (rev ?a)" by simp
  have "?a = rev (dropWhile is_space (rev ?a)) @ rev (takeWhile is_space (rev ?a))"
    using arg_cong [OF b, of rev] by (simp only: rev_append rev_rev_ident)
  then have "t = takeWhile is_space t @ strip t @ rev (takeWhile is_space (rev ?a))"
    using a by (simp add: strip_def)
  moreover have "list_all is_space (takeWhile is_space t)"
    by (simp add: list_all_iff) (meson set_takeWhileD)
  moreover have "list_all is_space (rev (takeWhile is_space (rev ?a)))"
    by (simp add: list_all_iff) (meson set_takeWhileD)
  ultimately show ?thesis by blast
qed

lemma strip_ends:
  assumes ne: "strip t \<noteq> []"
  shows "\<not> is_space (hd (strip t)) \<and> \<not> is_space (last (strip t))"
proof -
  let ?a = "dropWhile is_space t"
  let ?b = "dropWhile is_space (rev ?a)"
  have s: "strip t = rev ?b" by (simp add: strip_def)
  from ne s have bne: "?b \<noteq> []" by simp
  then have hb: "\<not> is_space (hd ?b)" by (rule hd_dropWhile)
  have l: "last (strip t) = hd ?b" using bne s by (simp add: last_rev)
  have ane: "?a \<noteq> []"
  proof
    assume "?a = []"
    then have "?b = []" by (simp only: rev.simps dropWhile.simps)
    with bne show False by contradiction
  qed
  then have ha: "\<not> is_space (hd ?a)" by (rule hd_dropWhile)
  have "hd (strip t) = last ?b" using bne s by (simp add: hd_rev)
  also have "last ?b = last (rev ?a)"
  proof -
    have "rev ?a = takeWhile is_space (rev ?a) @ ?b" by simp
    then have "last (rev ?a) = last (takeWhile is_space (rev ?a) @ ?b)" by simp
    also have "\<dots> = last ?b" using bne by (rule last_appendR)
    finally show ?thesis by simp
  qed
  also have "\<dots> = hd ?a" using ane by (simp add: last_rev)
  finally show ?thesis using ha hb l by simp
qed

lemma parse_midpoints_filter_map:
  "parse_midpoints text = filter (\<lambda>t. t \<noteq> []) (map strip (split_on comma text))"
  by (simp add: parse_midpoints_def filter_map comp_def)

lemma dispatch_midpoints_text:
  assumes "state s = Some input_midpoints" and "is_city_text E text"
  shows "dispatch E (s, w) (Message text) = keep w (handle_midpoints text s)"
  using assms by (simp add: is_city_text_def)

section \<open>The claims\<close>

text \<open>
  C3. A text received while the midpoints are awaited (a text that is not one of the
  three commands) is stored as the list of its comma separated tokens, each trimmed of
  whitespace, the empty ones dropped, in their order, and the forecast length is asked
  next. Splitting is what it should be: the tokens joined by commas give the text back
  and no token holds a comma. Trimming is what it should be: a token is its trimmed
  form between two runs of whitespace, and a trimmed form that is not empty neither
  starts nor ends with whitespace. The text " Paris,  , London ,," gives Paris, London.
\<close>

theorem midpoints_text_split_trimmed:
  assumes "state s = Some input_midpoints" and "is_city_text E text"
  shows "midpoints (fst (fst (dispatch E (s, w) (Message text)))) =
           Some (filter (\<lambda>t. t \<noteq> []) (map strip (split_on comma text))) \<and>
         state (fst (fst (dispatch E (s, w) (Message text)))) = Some choose_forecast \<and>
         join comma (split_on comma text) = text \<and>
         comma \<notin> set (concat (split_on comma text)) \<and>
         (\<forall>t. \<exists>l r. t = l @ strip t @ r \<and> list_all is_space l \<and> list_all is_space r) \<and>
         (\<forall>t. strip t \<noteq> [] \<longrightarrow> \<not> is_space (hd (strip t)) \<and> \<not> is_space (last (strip t))) \<and>
         parse_midpoints (ustr_of '' Paris,  , London ,,'') =
           [ustr_of ''Paris'', ustr_of ''London'']"
proof -
  have d: "dispatch E (s, w) (Message text) = keep w (handle_midpoints text s)"
    using assms by (rule dispatch_midpoints_text)
  have m: "midpoints (fst (fst (dispatch E (s, w) (Message text)))) =
             Some (filter (\<lambda>t. t \<noteq> []) (map strip (split_on comma text)))"
    unfolding d
    by (simp add: keep_def handle_midpoints_def request_forecast_days_def
        parse_midpoints_filter_map)
  have st: "state (fst (fst (dispatch E (s, w) (Message text)))) = Some choose_forecast"
    unfolding d by (simp add: keep_def handle_midpoints_def request_forecast_days_def)
  have ex: "parse_midpoints (ustr_of '' Paris,  , London ,,'') =
              [ustr_of ''Paris'', ustr_of ''London'']"
    by (simp add: parse_midpoints_def ustr_of_def comma_def strip_def is_space_def)
  show ?thesis
    using m st ex join_split_on sep_notin_split_on strip_decompose strip_ends by blast
qed

theorem midpoints_text_split_trimmed_witness:
  "midpoints (fst (fst (dispatch demo_env (awaiting input_midpoints, [])
      (Message (ustr_of '' Paris,  , London ,,''))))) =
     Some [ustr_of ''Paris'', ustr_of ''London''] \<and>
   state (fst (fst (dispatch demo_env (awaiting input_midpoints, [])
      (Message (ustr_of '' Paris,  , London ,,''))))) = Some choose_forecast"
proof -
  have h1: "state (awaiting input_midpoints) = Some input_midpoints"
    by (simp add: awaiting_def clear_def)
  have h2: "is_city_text demo_env (ustr_of '' Paris,  , London ,,'')"
    by (simp add: is_city_text_def demo_env_def demo_command_def ustr_of_def)
  have p: "parse_midpoints (ustr_of '' Paris,  , London ,,'') =
             filter (\<lambda>t. t \<noteq> []) (map strip (split_on comma (ustr_of '' Paris,  , London ,,'')))"
    by (rule parse_midpoints_filter_map)
  show ?thesis
    using midpoints_text_split_trimmed [OF h1 h2, of "[]"] p by simp
qed

section \<open>Facts about the aggregator\<close>

lemmas demo_defs = demo_env_def demo_entry_def demo_str_def demo_command_def

lemmas key_defs = key_Key_def key_DailyForecasts_def key_Date_def key_Temperature_def
  key_Minimum_def key_Maximum_def key_Value_def key_Day_def key_IconPhrase_def

lemmas client_defs = fetch_location_key_def fetch_weather_forecast_def truncated_forecast_def
  forecast_for_city_def generate_forecast_def day_of_entry_def temperature_value_def
  date_part_def fmt_def exn_bind_def

lemma generate_loop_acc:
  "generate_loop E n cities w acc =
     (case generate_loop E n cities w [] of
        (Inl e, w') \<Rightarrow> (Inl e, w')
      | (Inr rs, w') \<Rightarrow> (Inr (acc @ rs), w'))"
proof (induction cities arbitrary: w acc)
  case Nil
  show ?case by simp
next
  case (Cons city cities)
  show ?case
  proof (cases "forecast_for_city E n w city")
    case (Pair x w1)
    show ?thesis
    proof (cases x)
      case (Inl e)
      with Pair show ?thesis by simp
    next
      case (Inr r)
      have a: "generate_loop E n cities w1 (acc @ [r]) =
        (case generate_loop E n cities w1 [] of
           (Inl e, w') \<Rightarrow> (Inl e, w') | (Inr rs, w') \<Rightarrow> (Inr ((acc @ [r]) @ rs), w'))"
        by (rule Cons.IH)
      have b: "generate_loop E n cities w1 [r] =
        (case generate_loop E n cities w1 [] of
           (Inl e, w') \<Rightarrow> (Inl e, w') | (Inr rs, w') \<Rightarrow> (Inr ([r] @ rs), w'))"
        by (rule Cons.IH)
      show ?thesis using Pair Inr a b
        by (simp split: prod.splits sum.splits)
    qed
  qed
qed

lemma generate_forecast_Nil: "generate_forecast E w [] n = (Inr [], w)"
  by (simp add: generate_forecast_def)

lemma generate_forecast_Cons:
  "generate_forecast E w (city # cities) n =
     (case forecast_for_city E n w city of
        (Inl e, w1) \<Rightarrow> (Inl e, w1)
      | (Inr r, w1) \<Rightarrow>
          (case generate_forecast E w1 cities n of
             (Inl e, w2) \<Rightarrow> (Inl e, w2)
           | (Inr rs, w2) \<Rightarrow> (Inr (r # rs), w2)))"
  using generate_loop_acc [of E n cities _ "[_]"]
  by (simp add: generate_forecast_def split: prod.splits sum.splits)

lemma generate_forecast_append:
  "generate_forecast E w (xs @ ys) n =
     (case generate_forecast E w xs n of
        (Inl e, w1) \<Rightarrow> (Inl e, w1)
      | (Inr rs1, w1) \<Rightarrow>
          (case generate_forecast E w1 ys n of
             (Inl e, w2) \<Rightarrow> (Inl e, w2)
           | (Inr rs2, w2) \<Rightarrow> (Inr (rs1 @ rs2), w2)))"
proof (induction xs arbitrary: w)
  case Nil
  show ?case by (simp add: generate_forecast_Nil split: prod.splits sum.splits)
next
  case (Cons x xs)
  show ?case
    by (simp add: generate_forecast_Cons Cons.IH split: prod.splits sum.splits)
qed

lemma forecast_for_city_location:
  "forecast_for_city E n w city = (Inr r, w') \<Longrightarrow> location r = city"
  by (auto simp: forecast_for_city_def split: prod.splits sum.splits if_splits)

lemma generate_forecast_locations:
  "generate_forecast E w cities n = (Inr rs, w') \<Longrightarrow> map location rs = cities"
proof (induction cities arbitrary: w rs)
  case Nil
  then show ?case by (simp add: generate_forecast_Nil)
next
  case (Cons c cs)
  from Cons.prems obtain r w1 rs' where
    r: "forecast_for_city E n w c = (Inr r, w1)" and
    rs': "generate_forecast E w1 cs n = (Inr rs', w')" and
    eq: "rs = r # rs'"
    by (auto simp: generate_forecast_Cons split: prod.splits sum.splits)
  from Cons.IH [OF rs'] forecast_for_city_location [OF r] eq show ?case by simp
qed



text \<open>
  C6. Let the search request be answered by a response. A status other than 200 gives
  \<open>None\<close>, and so does an empty list of candidates. A list whose first candidate is a
  dict with the entry Key gives that entry, whatever follows it in the list. So, for a
  list of candidates that all carry a Key other than \<open>None\<close>, the result is \<open>None\<close>
  exactly when the status is not 200 or the list is empty.
\<close>

theorem fetch_location_key_first_wins:
  assumes "search_cities E w city = (Inr r, w')"
  shows "(status r \<noteq> 200 \<longrightarrow> fetch_location_key E w city = (Inr JNull, w')) \<and>
         (status r = 200 \<and> body r = Inr (JArr []) \<longrightarrow>
            fetch_location_key E w city = (Inr JNull, w')) \<and>
         (\<forall>kvs cands k. status r = 200 \<and> body r = Inr (JArr (JObj kvs # cands)) \<and>
            map_of kvs key_Key = Some k \<longrightarrow>
            fetch_location_key E w city = (Inr k, w')) \<and>
         (\<forall>cands. body r = Inr (JArr cands) \<and> (\<forall>c \<in> set cands. \<exists>kvs k.
              c = JObj kvs \<and> map_of kvs key_Key = Some k \<and> k \<noteq> JNull) \<longrightarrow>
            (fst (fetch_location_key E w city) = Inr JNull \<longleftrightarrow> status r \<noteq> 200 \<or> cands = []))"
proof -
  have a: "status r \<noteq> 200 \<longrightarrow> fetch_location_key E w city = (Inr JNull, w')"
    using assms by (simp add: fetch_location_key_def)
  have b: "status r = 200 \<and> body r = Inr (JArr []) \<longrightarrow>
      fetch_location_key E w city = (Inr JNull, w')"
    using assms by (simp add: fetch_location_key_def)
  have c: "status r = 200 \<and> body r = Inr (JArr (JObj kvs # cands)) \<and>
      map_of kvs key_Key = Some k \<longrightarrow> fetch_location_key E w city = (Inr k, w')"
    for kvs cands k
    using assms by (simp add: fetch_location_key_def exn_bind_def)
  have d: "fst (fetch_location_key E w city) = Inr JNull \<longleftrightarrow> status r \<noteq> 200 \<or> cands = []"
    if bd: "body r = Inr (JArr cands)"
      and ok: "\<forall>c \<in> set cands. \<exists>kvs k. c = JObj kvs \<and> map_of kvs key_Key = Some k \<and> k \<noteq> JNull"
    for cands
  proof (cases "status r \<noteq> 200 \<or> cands = []")
    case True
    with a b bd show ?thesis by auto
  next
    case False
    then obtain c cs where cs: "cands = c # cs" by (cases cands) auto
    with ok obtain kvs k where k: "c = JObj kvs" "map_of kvs key_Key = Some k" "k \<noteq> JNull"
      by auto
    with c [of kvs cs k] False bd cs show ?thesis by simp
  qed
  from a b c d show ?thesis by blast
qed

theorem fetch_location_key_first_wins_witness:
  "fetch_location_key demo_env [] (ustr_of ''GarbageCity123'') =
     (Inr JNull, [ustr_of ''GarbageCity123'']) \<and>
   fetch_location_key demo_env [] (ustr_of ''Paris'') =
     (Inr (JStr (ustr_of ''Paris'')), [ustr_of ''Paris''])"
proof -
  have g: "search_cities demo_env [] (ustr_of ''GarbageCity123'') =
      (Inr \<lparr>status = 200, body = Inr (JArr [])\<rparr>, [ustr_of ''GarbageCity123''])"
    by (simp add: demo_env_def)
  have p: "search_cities demo_env [] (ustr_of ''Paris'') =
      (Inr \<lparr>status = 200, body = Inr (JArr [JObj [(key_Key, JStr (ustr_of ''Paris''))]])\<rparr>,
       [ustr_of ''Paris''])"
    by (simp add: demo_env_def ustr_of_def)
  show ?thesis
    using fetch_location_key_first_wins [OF g] fetch_location_key_first_wins [OF p]
    by simp
qed

text \<open>
  C7. The forecast of a location, for a day count \<open>n\<close>, is fetched by
  \<open>fetch_weather_forecast\<close> and cut by the next line of \<open>generate_forecast\<close>
  (\<open>truncated_forecast\<close> is the two together). Let the forecast request be answered by a
  response. A status other than 200 gives the empty list, before and after the cut. A
  status 200 with a dict that holds the list DailyForecasts gives that list, and after
  the cut its first \<open>n\<close> entries (\<open>n\<close> not negative).
\<close>

theorem truncated_forecast_first_days:
  assumes "daily_5day E w loc_key = (Inr r, w')"
  shows "(status r \<noteq> 200 \<longrightarrow>
            fetch_weather_forecast E w loc_key = (Inr (JArr []), w') \<and>
            truncated_forecast E w loc_key n = (Inr [], w')) \<and>
         (\<forall>kvs xs. status r = 200 \<and> body r = Inr (JObj kvs) \<and>
            map_of kvs key_DailyForecasts = Some (JArr xs) \<longrightarrow>
            fetch_weather_forecast E w loc_key = (Inr (JArr xs), w') \<and>
            (0 \<le> n \<longrightarrow> truncated_forecast E w loc_key n = (Inr (take (nat n) xs), w')))"
  using assms by (simp add: fetch_weather_forecast_def truncated_forecast_def)

theorem truncated_forecast_first_days_witness:
  "truncated_forecast demo_env [] (JStr (ustr_of ''Nowhere'')) 3 = (Inr [], []) \<and>
   truncated_forecast demo_env [] (JStr (ustr_of ''Paris'')) 3 =
     (Inr (map demo_entry [1, 2, 3]), [])"
proof -
  have a: "daily_5day demo_env [] (JStr (ustr_of ''Nowhere'')) =
      (Inr \<lparr>status = 503, body = Inl ClientError\<rparr>, [])"
    by (simp add: demo_env_def)
  have b: "daily_5day demo_env [] (JStr (ustr_of ''Paris'')) =
      (Inr \<lparr>status = 200,
             body = Inr (JObj [(key_DailyForecasts, JArr (map demo_entry [1, 2, 3, 4, 5]))])\<rparr>, [])"
    by (simp add: demo_env_def ustr_of_def)
  show ?thesis
    using truncated_forecast_first_days [OF a, of 3] truncated_forecast_first_days [OF b, of 3]
    by simp
qed

lemma foldl_append_concat: "foldl (\<lambda>result x. result @ f x) acc xs = acc @ concat (map f xs)"
  by (induction xs arbitrary: acc) simp_all

lemma format_forecast_concat: "format_forecast E rs = concat (map (format_city E) rs)"
  by (simp add: format_forecast_def foldl_append_concat)


lemma generate_forecast_total:
  "\<forall>c \<in> set cities. \<forall>w0. \<exists>r w1. forecast_for_city E n w0 c = (Inr r, w1) \<Longrightarrow>
   \<exists>rs w'. generate_forecast E w cities n = (Inr rs, w')"
proof (induction cities arbitrary: w)
  case Nil
  show ?case by (simp add: generate_forecast_Nil)
next
  case (Cons c cs)
  from Cons.prems obtain r w1 where r: "forecast_for_city E n w c = (Inr r, w1)"
    by (meson list.set_intros(1))
  from Cons.prems have "\<forall>c \<in> set cs. \<forall>w0. \<exists>r w1. forecast_for_city E n w0 c = (Inr r, w1)"
    by simp
  from Cons.IH [OF this, of w1] obtain rs w' where "generate_forecast E w1 cs n = (Inr rs, w')"
    by blast
  with r show ?case by (simp add: generate_forecast_Cons)
qed




text \<open>
  C10. Whenever the aggregator returns its list, the list is as long as the list of
  cities, and the location of result number \<open>i\<close> is city number \<open>i\<close> as it was given:
  each result, the marker as well as a forecast, carries the name the loop was given and
  not one of the provider. The aggregator does return its list when no city raises.
\<close>

theorem generate_forecast_one_result_per_city:
  "(\<forall>rs w'. generate_forecast E w cities n = (Inr rs, w') \<longrightarrow>
      length rs = length cities \<and> (\<forall>i < length cities. location (rs ! i) = cities ! i)) \<and>
   (\<forall>c w0 r w1. forecast_for_city E n w0 c = (Inr r, w1) \<longrightarrow> location r = c) \<and>
   ((\<forall>c \<in> set cities. \<forall>w0. \<exists>r w1. forecast_for_city E n w0 c = (Inr r, w1)) \<longrightarrow>
      (\<exists>rs w'. generate_forecast E w cities n = (Inr rs, w')))"
proof -
  have a: "length rs = length cities \<and> (\<forall>i < length cities. location (rs ! i) = cities ! i)"
    if g: "generate_forecast E w cities n = (Inr rs, w')" for rs w'
  proof -
    have m: "map location rs = cities" using g by (rule generate_forecast_locations)
    have l: "length rs = length cities"
      using arg_cong [OF m, of length] by simp
    have "location (rs ! i) = cities ! i" if "i < length cities" for i
      using nth_map [of i rs location] m l that by simp
    with l show ?thesis by simp
  qed
  have b: "location r = c" if "forecast_for_city E n w0 c = (Inr r, w1)" for c w0 r w1
    using that by (rule forecast_for_city_location)
  have c: "\<exists>rs w'. generate_forecast E w cities n = (Inr rs, w')"
    if "\<forall>c \<in> set cities. \<forall>w0. \<exists>r w1. forecast_for_city E n w0 c = (Inr r, w1)"
    using that by (rule generate_forecast_total)
  show ?thesis
    apply (intro conjI allI impI)
    subgoal for rs w' using a [of rs w'] by simp
    subgoal for rs w' i using a [of rs w'] by simp
    subgoal for c w0 r w1 by (rule b)
    subgoal by (rule c)
    done
qed

theorem generate_forecast_one_result_per_city_witness:
  "map location (case fst (generate_forecast demo_env []
       [ustr_of ''Paris'', ustr_of ''GarbageCity123'', ustr_of ''Paris''] 5) of Inr rs \<Rightarrow> rs | Inl e \<Rightarrow> []) =
     [ustr_of ''Paris'', ustr_of ''GarbageCity123'', ustr_of ''Paris'']"
  using generate_forecast_one_result_per_city [of demo_env "[]"
      "[ustr_of ''Paris'', ustr_of ''GarbageCity123'', ustr_of ''Paris'']" 5]
  by (simp add: client_defs demo_defs key_defs ustr_of_def letter_T_def)

text \<open>
  C5. Let the aggregator have returned the results \<open>rs1\<close> for the cities \<open>before\<close>, and
  let the location of the next city not resolve (the key fetched is \<open>None\<close> or otherwise
  falsy). Then the aggregator run on all the cities gives \<open>rs1\<close> unchanged, then the marker
  for this city alone, then what the cities \<open>after\<close> give on their own from the world the
  failed lookup left; the failure raises nothing. The results come in the order of the
  cities.
\<close>

theorem resolution_failure_isolated:
  assumes "generate_forecast E w before n = (Inr rs1, w1)"
    and "fetch_location_key E w1 city = (Inr k, w2)"
    and "\<not> truthy (float_is_zero E) k"
  shows "generate_forecast E w (before @ city # after) n =
           (case generate_forecast E w2 after n of
              (Inl e, w3) \<Rightarrow> (Inl e, w3)
            | (Inr rs2, w3) \<Rightarrow>
                (Inr (rs1 @ \<lparr>location = city, forecast = NoData\<rparr> # rs2), w3)) \<and>
         map location rs1 = before \<and>
         (\<forall>rs2 w3. generate_forecast E w2 after n = (Inr rs2, w3) \<longrightarrow>
            map location (rs1 @ \<lparr>location = city, forecast = NoData\<rparr> # rs2) =
              before @ city # after)"
proof -
  have c: "forecast_for_city E n w1 city = (Inr \<lparr>location = city, forecast = NoData\<rparr>, w2)"
    using assms(2,3) by (simp add: forecast_for_city_def)
  have a: "generate_forecast E w (before @ city # after) n =
      (case generate_forecast E w2 after n of
         (Inl e, w3) \<Rightarrow> (Inl e, w3)
       | (Inr rs2, w3) \<Rightarrow> (Inr (rs1 @ \<lparr>location = city, forecast = NoData\<rparr> # rs2), w3))"
    by (simp add: generate_forecast_append assms(1) generate_forecast_Cons c
        split: prod.splits sum.splits)
  have b: "map location rs1 = before"
    using assms(1) by (rule generate_forecast_locations)
  have d: "map location (rs1 @ \<lparr>location = city, forecast = NoData\<rparr> # rs2) =
      before @ city # after" if "generate_forecast E w2 after n = (Inr rs2, w3)" for rs2 w3
    using generate_forecast_locations [OF that] b by simp
  show ?thesis
    apply (intro conjI allI impI)
    subgoal by (rule a)
    subgoal by (rule b)
    subgoal for rs2 w3 by (rule d)
    done
qed

theorem resolution_failure_isolated_witness:
  "generate_forecast demo_env [] [ustr_of ''ValidCity'', ustr_of ''GarbageCity123''] 3 =
     (Inr [\<lparr>location = ustr_of ''ValidCity'',
           forecast = Days [
             \<lparr>date = ustr_of ''2024-05-01'', temperature = ustr_of ''1 - 5'' @ degrees_suffix,
              conditions = JStr (ustr_of ''Sunny'')\<rparr>,
             \<lparr>date = ustr_of ''2024-05-02'', temperature = ustr_of ''2 - 6'' @ degrees_suffix,
              conditions = JStr (ustr_of ''Sunny'')\<rparr>,
             \<lparr>date = ustr_of ''2024-05-03'', temperature = ustr_of ''3 - 7'' @ degrees_suffix,
              conditions = JStr (ustr_of ''Sunny'')\<rparr>]\<rparr>,
           \<lparr>location = ustr_of ''GarbageCity123'', forecast = NoData\<rparr>],
      [ustr_of ''ValidCity'', ustr_of ''GarbageCity123''])"
proof -
  have v: "generate_forecast demo_env [] [ustr_of ''ValidCity''] 3 =
     (Inr [\<lparr>location = ustr_of ''ValidCity'',
           forecast = Days [
             \<lparr>date = ustr_of ''2024-05-01'', temperature = ustr_of ''1 - 5'' @ degrees_suffix,
              conditions = JStr (ustr_of ''Sunny'')\<rparr>,
             \<lparr>date = ustr_of ''2024-05-02'', temperature = ustr_of ''2 - 6'' @ degrees_suffix,
              conditions = JStr (ustr_of ''Sunny'')\<rparr>,
             \<lparr>date = ustr_of ''2024-05-03'', temperature = ustr_of ''3 - 7'' @ degrees_suffix,
              conditions = JStr (ustr_of ''Sunny'')\<rparr>]\<rparr>], [ustr_of ''ValidCity''])"
    by (simp add: client_defs demo_defs key_defs ustr_of_def letter_T_def)
  have g: "fetch_location_key demo_env [ustr_of ''ValidCity''] (ustr_of ''GarbageCity123'') =
      (Inr JNull, [ustr_of ''ValidCity'', ustr_of ''GarbageCity123''])"
    by (simp add: fetch_location_key_def demo_env_def)
  have t: "\<not> truthy (float_is_zero demo_env) (JNull :: unit json)" by simp
  show ?thesis
    using resolution_failure_isolated [OF v g t, of "[]"]
    by (simp add: generate_forecast_Nil)
qed

text \<open>
  C8, as stated, fails. The city Nowhere resolves and its forecast is refused with status
  503: its result holds the empty list of days, which is not the marker, and its report
  is not the report of a city that did not resolve.
\<close>

theorem fetch_failure_marked_no_data_counterexample:
  "fetch_location_key demo_env [] (ustr_of ''Nowhere'') =
     (Inr (JStr (ustr_of ''Nowhere'')), [ustr_of ''Nowhere'']) \<and>
   fetch_weather_forecast demo_env [ustr_of ''Nowhere''] (JStr (ustr_of ''Nowhere'')) =
     (Inr (JArr []), [ustr_of ''Nowhere'']) \<and>
   generate_forecast demo_env [] [ustr_of ''Nowhere''] 3 =
     (Inr [\<lparr>location = ustr_of ''Nowhere'', forecast = Days []\<rparr>], [ustr_of ''Nowhere'']) \<and>
   generate_forecast demo_env [] [ustr_of ''GarbageCity123''] 3 =
     (Inr [\<lparr>location = ustr_of ''GarbageCity123'', forecast = NoData\<rparr>],
      [ustr_of ''GarbageCity123'']) \<and>
   format_forecast demo_env [\<lparr>location = ustr_of ''Nowhere'', forecast = Days []\<rparr>] \<noteq>
     format_forecast demo_env [\<lparr>location = ustr_of ''Nowhere'', forecast = NoData\<rparr>]"
  by (simp add: client_defs demo_defs key_defs ustr_of_def format_forecast_def format_city_def
      unavailable_line_def)

text \<open>
  C8, amended. When the location of a city resolves and the forecast request is answered
  with a status other than 200, the failure becomes the empty list: the result of the
  city holds no days (it is not the marker) and nothing is raised. Its report is the
  header line of the city and the blank line, without the line that says the data are
  not available, which only the marker gets.
\<close>

theorem fetch_failure_empty_forecast:
  assumes "fetch_location_key E w city = (Inr k, w1)"
    and "truthy (float_is_zero E) k"
    and "daily_5day E w1 k = (Inr r, w2)"
    and "status r \<noteq> 200"
  shows "fetch_weather_forecast E w1 k = (Inr (JArr []), w2) \<and>
         forecast_for_city E n w city = (Inr \<lparr>location = city, forecast = Days []\<rparr>, w2) \<and>
         format_forecast E [\<lparr>location = city, forecast = Days []\<rparr>] =
           header_prefix @ city @ header_suffix @ [0xA] \<and>
         format_forecast E [\<lparr>location = city, forecast = NoData\<rparr>] =
           header_prefix @ city @ header_suffix @ unavailable_line @ [0xA]"
  using assms
  by (simp add: fetch_weather_forecast_def forecast_for_city_def truncated_forecast_def
      format_forecast_def format_city_def)

theorem fetch_failure_empty_forecast_witness:
  "forecast_for_city demo_env 3 [] (ustr_of ''Nowhere'') =
     (Inr \<lparr>location = ustr_of ''Nowhere'', forecast = Days []\<rparr>, [ustr_of ''Nowhere'']) \<and>
   format_forecast demo_env [\<lparr>location = ustr_of ''Nowhere'', forecast = Days []\<rparr>] =
     header_prefix @ ustr_of ''Nowhere'' @ header_suffix @ [0xA]"
proof -
  have k: "fetch_location_key demo_env [] (ustr_of ''Nowhere'') =
      (Inr (JStr (ustr_of ''Nowhere'')), [ustr_of ''Nowhere''])"
    by (simp add: client_defs demo_defs key_defs ustr_of_def)
  have t: "truthy (float_is_zero demo_env) (JStr (ustr_of ''Nowhere'') :: unit json)"
    by (simp add: ustr_of_def)
  have d: "daily_5day demo_env [ustr_of ''Nowhere''] (JStr (ustr_of ''Nowhere'')) =
      (Inr \<lparr>status = 503, body = Inl ClientError\<rparr>, [ustr_of ''Nowhere''])"
    by (simp add: demo_env_def)
  have s: "status \<lparr>status = 503, body = (Inl ClientError :: exn + unit json)\<rparr> \<noteq> 200" by simp
  show ?thesis
    using fetch_failure_empty_forecast [OF k t d s, of 3] by simp
qed

section \<open>Facts about the dialogue\<close>

lemma dispatch_weather:
  "command_name E c = Some ''weather'' \<Longrightarrow>
   dispatch E (s, w) (Message c) = ((s\<lparr>state := Some input_start\<rparr>, w), [Answer ask_start_text []])"
  by (simp add: keep_def weather_command_def)

lemma dispatch_start_city:
  "state s = Some input_start \<Longrightarrow> is_city_text E a \<Longrightarrow>
   dispatch E (s, w) (Message a) =
     ((s\<lparr>start_city := Some a, state := Some input_end\<rparr>, w), [Answer ask_end_text []])"
  by (simp add: keep_def handle_start_city_def is_city_text_def)

lemma dispatch_end_city:
  "state s = Some input_end \<Longrightarrow> is_city_text E b \<Longrightarrow>
   dispatch E (s, w) (Message b) =
     ((s\<lparr>end_city := Some b, state := Some input_midpoints\<rparr>, w),
      [Answer ask_midpoints_choice_text
         [(add_button_text, data_add_midpoints), (skip_button_text, data_skip_midpoints)]])"
  by (simp add: keep_def handle_end_city_def is_city_text_def)

lemma dispatch_add:
  "state s = Some input_midpoints \<Longrightarrow>
   dispatch E (s, w) (CallbackQuery data_add_midpoints) =
     ((s, w), [Answer ask_midpoints_text [], CallbackAnswer])"
  by (simp add: keep_def add_midpoints_def)

lemma add_neq_skip: "data_skip_midpoints \<noteq> data_add_midpoints"
  by (simp add: data_skip_midpoints_def data_add_midpoints_def ustr_of_def)

lemma dispatch_skip:
  "state s = Some input_midpoints \<Longrightarrow>
   dispatch E (s, w) (CallbackQuery data_skip_midpoints) =
     ((s\<lparr>midpoints := Some [], state := Some choose_forecast\<rparr>, w),
      [Answer no_midpoints_text [], CallbackAnswer,
       Answer ask_days_text [(three_button_text, data_3_days), (five_button_text, data_5_days)]])"
  by (simp add: keep_def skip_midpoints_def request_forecast_days_def add_neq_skip)

lemma dispatch_midpoints:
  "state s = Some input_midpoints \<Longrightarrow> is_city_text E m \<Longrightarrow>
   dispatch E (s, w) (Message m) =
     ((s\<lparr>midpoints := Some (parse_midpoints m), state := Some choose_forecast\<rparr>, w),
      [Answer ask_days_text [(three_button_text, data_3_days), (five_button_text, data_5_days)]])"
  by (simp add: keep_def handle_midpoints_def request_forecast_days_def is_city_text_def)

lemma dispatch_days:
  assumes "state s = Some choose_forecast" and "d \<in> {data_3_days, data_5_days}"
    and "start_city s = Some a" and "end_city s = Some b"
  shows "dispatch E (s, w) (CallbackQuery d) =
     (case generate_forecast E w
             ([a] @ (case midpoints s of None \<Rightarrow> [] | Some ms \<Rightarrow> ms) @ [b])
             (if d = data_3_days then 3 else 5) of
        (Inr forecasts, w') \<Rightarrow> ((clear, w'), [Answer (format_forecast E forecasts) []])
      | (Inl e, w') \<Rightarrow> ((clear, w'), [Answer failure_text []]))"
  using assms by (simp add: forecast_days_selected_def route_def Let_def)

lemma dispatch_days_session:
  assumes "state s = Some choose_forecast" and "d \<in> {data_3_days, data_5_days}"
    and "start_city s = Some a" and "end_city s = Some b"
  shows "fst (fst (dispatch E (s, w) (CallbackQuery d))) = clear"
  unfolding dispatch_days [OF assms] by (simp split: prod.splits sum.splits)

lemma data_ready_dispatch: "data_ready s \<Longrightarrow> data_ready (fst (fst (dispatch E (s, w) u)))"
proof (cases u)
  case (Message t)
  assume "data_ready s"
  then show ?thesis
    unfolding Message
    by (auto simp: data_ready_def keep_def start_command_def help_command_def
        weather_command_def handle_start_city_def handle_end_city_def handle_midpoints_def
        request_forecast_days_def)
next
  case (CallbackQuery d)
  assume r: "data_ready s"
  show ?thesis
  proof (cases "state s = Some choose_forecast \<and> d \<in> {data_3_days, data_5_days}")
    case True
    with r obtain a b where "start_city s = Some a" "end_city s = Some b"
      by (auto simp: data_ready_def)
    with True have "fst (fst (dispatch E (s, w) (CallbackQuery d))) = clear"
      by (intro dispatch_days_session) auto
    then show ?thesis unfolding CallbackQuery by (simp add: data_ready_def clear_def)
  next
    case False
    with r show ?thesis
      unfolding CallbackQuery
      by (auto simp: data_ready_def keep_def add_midpoints_def skip_midpoints_def
          request_forecast_days_def)
  qed
qed

lemma data_ready_run:
  "data_ready (fst sw) \<Longrightarrow> data_ready (fst (fst (run E sw us)))"
proof (induction us arbitrary: sw)
  case Nil
  then show ?case by simp
next
  case (Cons u us)
  obtain s w where sw: "sw = (s, w)" by (cases sw)
  obtain s' w' sent where d: "dispatch E (s, w) u = ((s', w'), sent)"
    by (metis surj_pair)
  from Cons.prems sw have "data_ready s" by simp
  from data_ready_dispatch [OF this, of E w u] d have "data_ready (fst (s', w'))" by simp
  from Cons.IH [OF this] show ?case
    by (auto simp: sw d split: prod.splits)
qed

lemma days_data_distinct: "data_5_days \<noteq> data_3_days"
  by (simp add: data_3_days_def data_5_days_def ustr_of_def)

text \<open>
  C9. Let a conversation that started with no state and no data have reached, by any
  updates, the state \<open>choose_forecast\<close>, and let one of the two forecast buttons be
  pressed. Then both cities are there, the day count is 3 for the button 3_days and 5 for
  the button 5_days, the route is built from the session and the aggregator is run on it
  with that day count. When the aggregator returns, the formatted report is the one
  message sent; when it raises, the failure notice is. In both cases the session
  afterwards has no state, no first city, no last city, no midpoints and no day count.
  The day count is stored before the route is built: a session without a first city,
  which no conversation reaches, leaves the handler there, with the day count stored and
  nothing sent.
\<close>

theorem forecast_choice_resets_session:
  assumes "run E (clear, w0) us = ((s, w), sent0)"
    and "state s = Some choose_forecast"
    and "d \<in> {data_3_days, data_5_days}"
  shows "\<exists>a b n.
           start_city s = Some a \<and> end_city s = Some b \<and>
           n = (if d = data_3_days then 3 else 5) \<and> (d = data_5_days \<longrightarrow> n = 5) \<and>
           route (s\<lparr>days := Some n\<rparr>) =
             Inr ([a] @ (case midpoints s of None \<Rightarrow> [] | Some ms \<Rightarrow> ms) @ [b]) \<and>
           dispatch E (s, w) (CallbackQuery d) =
             (case generate_forecast E w
                     ([a] @ (case midpoints s of None \<Rightarrow> [] | Some ms \<Rightarrow> ms) @ [b]) n of
                (Inr forecasts, w') \<Rightarrow> ((clear, w'), [Answer (format_forecast E forecasts) []])
              | (Inl e, w') \<Rightarrow> ((clear, w'), [Answer failure_text []])) \<and>
           fst (fst (dispatch E (s, w) (CallbackQuery d))) = clear \<and>
           fst (fst (dispatch E (s, w) (CallbackQuery d))) =
             \<lparr>state = None, start_city = None, end_city = None, midpoints = None,
              days = None\<rparr> \<and>
           (\<forall>s' w'. start_city s' = None \<longrightarrow>
              forecast_days_selected E d (s', w') = ((s'\<lparr>days := Some n\<rparr>, w'), []))"
proof -
  have "data_ready (fst (clear, w0))" by (simp add: data_ready_def clear_def)
  from data_ready_run [OF this, of E us] assms(1) have "data_ready s" by simp
  with assms(2) obtain a b where ab: "start_city s = Some a" "end_city s = Some b"
    by (auto simp: data_ready_def)
  let ?n = "if d = data_3_days then 3 else 5 :: int"
  have r: "route (s\<lparr>days := Some ?n\<rparr>) =
      Inr ([a] @ (case midpoints s of None \<Rightarrow> [] | Some ms \<Rightarrow> ms) @ [b])"
    using ab by (simp add: route_def)
  have n5: "d = data_5_days \<longrightarrow> ?n = 5" by (simp add: days_data_distinct)
  have c: "fst (fst (dispatch E (s, w) (CallbackQuery d))) = clear"
    using assms(2,3) ab by (rule dispatch_days_session)
  have e: "fst (fst (dispatch E (s, w) (CallbackQuery d))) =
      \<lparr>state = None, start_city = None, end_city = None, midpoints = None, days = None\<rparr>"
    using c by (simp add: clear_def)
  have k: "forecast_days_selected E d (s', w') = ((s'\<lparr>days := Some ?n\<rparr>, w'), [])"
    if "start_city s' = None" for s' w'
    using that by (simp add: forecast_days_selected_def route_def Let_def)
  show ?thesis
    apply (rule exI [of _ a], rule exI [of _ b], rule exI [of _ ?n])
    apply (intro conjI allI impI)
    subgoal by (rule ab(1))
    subgoal by (rule ab(2))
    subgoal by (rule refl)
    subgoal by (simp add: days_data_distinct)
    subgoal by (rule r)
    subgoal using assms(2,3) ab by (rule dispatch_days)
    subgoal by (rule c)
    subgoal by (rule e)
    subgoal for s' w' by (rule k)
    done
qed

theorem forecast_choice_resets_session_witness:
  "fst (dispatch demo_env
     (\<lparr>state = Some choose_forecast, start_city = Some (ustr_of ''Moscow''),
       end_city = Some (ustr_of ''Paris''), midpoints = Some [], days = None\<rparr>, [])
     (CallbackQuery data_3_days)) =
     (\<lparr>state = None, start_city = None, end_city = None, midpoints = None, days = None\<rparr>,
      [ustr_of ''Moscow'', ustr_of ''Paris'']) \<and>
   dispatch failing_env
     (\<lparr>state = Some choose_forecast, start_city = Some (ustr_of ''Moscow''),
       end_city = Some (ustr_of ''Paris''), midpoints = Some [], days = None\<rparr>, [])
     (CallbackQuery data_5_days) =
     ((\<lparr>state = None, start_city = None, end_city = None, midpoints = None, days = None\<rparr>,
       [ustr_of ''Moscow'']), [Answer failure_text []]) \<and>
   forecast_days_selected demo_env data_5_days
     (\<lparr>state = Some choose_forecast, start_city = None, end_city = None, midpoints = None,
       days = None\<rparr>, []) =
     ((\<lparr>state = Some choose_forecast, start_city = None, end_city = None, midpoints = None,
        days = Some 5\<rparr>, []), [])"
proof -
  let ?us = "[Message (ustr_of ''/weather''), Message (ustr_of ''Moscow''),
              Message (ustr_of ''Paris''), CallbackQuery data_skip_midpoints]"
  let ?s = "\<lparr>state = Some choose_forecast, start_city = Some (ustr_of ''Moscow''),
       end_city = Some (ustr_of ''Paris''), midpoints = Some [], days = None\<rparr>"
  let ?e = "\<lparr>state = None, start_city = None, end_city = None, midpoints = None,
       days = None :: int option\<rparr>"
  let ?sent = "[Answer ask_start_text [], Answer ask_end_text [],
      Answer ask_midpoints_choice_text
         [(add_button_text, data_add_midpoints), (skip_button_text, data_skip_midpoints)],
      Answer no_midpoints_text [], CallbackAnswer,
      Answer ask_days_text [(three_button_text, data_3_days), (five_button_text, data_5_days)]]"
  have c: "command_name demo_env = demo_command" "command_name failing_env = demo_command"
    by (simp_all add: demo_env_def failing_env_def)
  have r1: "run demo_env (clear, []) ?us = ((?s, []), ?sent)"
    by (simp add: c demo_command_def ustr_of_def clear_def keep_def weather_command_def
        handle_start_city_def handle_end_city_def skip_midpoints_def request_forecast_days_def
        data_skip_midpoints_def data_add_midpoints_def)
  have r2: "run failing_env (clear, []) ?us = ((?s, []), ?sent)"
    by (simp add: c demo_command_def ustr_of_def clear_def keep_def weather_command_def
        handle_start_city_def handle_end_city_def skip_midpoints_def request_forecast_days_def
        data_skip_midpoints_def data_add_midpoints_def)
  have st: "state ?s = Some choose_forecast" by simp
  have d3: "data_3_days \<in> {data_3_days, data_5_days}" by simp
  have d5: "data_5_days \<in> {data_3_days, data_5_days}" by simp
  have g1: "generate_forecast demo_env [] [ustr_of ''Moscow'', ustr_of ''Paris''] 3 =
      (fst (generate_forecast demo_env [] [ustr_of ''Moscow'', ustr_of ''Paris''] 3),
       [ustr_of ''Moscow'', ustr_of ''Paris''])"
    by (simp add: client_defs demo_defs key_defs ustr_of_def letter_T_def)
  have g2: "generate_forecast failing_env [] [ustr_of ''Moscow'', ustr_of ''Paris''] 5 =
      (Inl ClientError, [ustr_of ''Moscow''])"
    by (simp add: client_defs failing_env_def demo_env_def)
  have ce: "clear = ?e" by (simp add: clear_def)
  have a: "fst (dispatch demo_env (?s, []) (CallbackQuery data_3_days)) =
      (?e, [ustr_of ''Moscow'', ustr_of ''Paris''])"
    using forecast_choice_resets_session [OF r1 st d3] g1
    by (auto simp del: dispatch.simps simp add: ce split: prod.splits sum.splits)
  have b: "dispatch failing_env (?s, []) (CallbackQuery data_5_days) =
      ((?e, [ustr_of ''Moscow'']), [Answer failure_text []])"
    using forecast_choice_resets_session [OF r2 st d5] g2
    by (auto simp del: dispatch.simps simp add: ce days_data_distinct)
  have k: "forecast_days_selected demo_env data_5_days
     (\<lparr>state = Some choose_forecast, start_city = None, end_city = None, midpoints = None,
       days = None\<rparr>, []) =
     ((\<lparr>state = Some choose_forecast, start_city = None, end_city = None, midpoints = None,
        days = Some 5\<rparr>, []), [])"
    using forecast_choice_resets_session [OF r1 st d5]
    by (auto simp del: dispatch.simps simp add: days_data_distinct)
  from a b k show ?thesis by (intro conjI)
qed

text \<open>
  C2. In the state \<open>choose_forecast\<close>, with the cities \<open>a\<close> and \<open>b\<close> and the midpoints \<open>ms\<close>
  stored, a forecast button runs the aggregator on the list \<open>[a] @ ms @ [b]\<close>: the first
  city, the midpoints as they are stored, the last city, nothing removed and nothing
  reordered. For A, B and the midpoints C, D the list is A, C, D, B.
\<close>

theorem route_start_midpoints_end:
  assumes "state s = Some choose_forecast"
    and "d \<in> {data_3_days, data_5_days}"
    and "start_city s = Some a" and "end_city s = Some b" and "midpoints s = Some ms"
  shows "route s = Inr ([a] @ ms @ [b]) \<and>
         route (s\<lparr>days := Some n\<rparr>) = Inr ([a] @ ms @ [b]) \<and>
         dispatch E (s, w) (CallbackQuery d) =
           (case generate_forecast E w ([a] @ ms @ [b]) (if d = data_3_days then 3 else 5) of
              (Inr forecasts, w') \<Rightarrow> ((clear, w'), [Answer (format_forecast E forecasts) []])
            | (Inl e, w') \<Rightarrow> ((clear, w'), [Answer failure_text []])) \<and>
         route \<lparr>state = st, start_city = Some (ustr_of ''A''), end_city = Some (ustr_of ''B''),
                midpoints = Some [ustr_of ''C'', ustr_of ''D''], days = dd\<rparr> =
           Inr [ustr_of ''A'', ustr_of ''C'', ustr_of ''D'', ustr_of ''B'']"
proof -
  have a: "route s = Inr ([a] @ ms @ [b])" using assms(3-5) by (simp add: route_def)
  have b: "route (s\<lparr>days := Some n\<rparr>) = Inr ([a] @ ms @ [b])"
    using assms(3-5) by (simp add: route_def)
  have c: "dispatch E (s, w) (CallbackQuery d) =
      (case generate_forecast E w ([a] @ ms @ [b]) (if d = data_3_days then 3 else 5) of
         (Inr forecasts, w') \<Rightarrow> ((clear, w'), [Answer (format_forecast E forecasts) []])
       | (Inl e, w') \<Rightarrow> ((clear, w'), [Answer failure_text []]))"
    using dispatch_days [OF assms(1-4), of E w] assms(5) by simp
  have d: "route \<lparr>state = st, start_city = Some (ustr_of ''A''), end_city = Some (ustr_of ''B''),
      midpoints = Some [ustr_of ''C'', ustr_of ''D''], days = dd\<rparr> =
      Inr [ustr_of ''A'', ustr_of ''C'', ustr_of ''D'', ustr_of ''B'']"
    by (simp add: route_def)
  from a b c d show ?thesis by (intro conjI)
qed

theorem route_start_midpoints_end_witness:
  "snd (fst (dispatch demo_env
     (\<lparr>state = Some choose_forecast, start_city = Some (ustr_of ''A''),
       end_city = Some (ustr_of ''B''), midpoints = Some [ustr_of ''C'', ustr_of ''D''],
       days = None\<rparr>, [])
     (CallbackQuery data_3_days))) = [ustr_of ''A'', ustr_of ''C'', ustr_of ''D'', ustr_of ''B'']"
proof -
  let ?s = "\<lparr>state = Some choose_forecast, start_city = Some (ustr_of ''A''),
       end_city = Some (ustr_of ''B''), midpoints = Some [ustr_of ''C'', ustr_of ''D''],
       days = None\<rparr>"
  have h1: "state ?s = Some choose_forecast" by simp
  have h2: "data_3_days \<in> {data_3_days, data_5_days}" by simp
  have h3: "start_city ?s = Some (ustr_of ''A'')" by simp
  have h4: "end_city ?s = Some (ustr_of ''B'')" by simp
  have h5: "midpoints ?s = Some [ustr_of ''C'', ustr_of ''D'']" by simp
  have g: "snd (generate_forecast demo_env []
      [ustr_of ''A'', ustr_of ''C'', ustr_of ''D'', ustr_of ''B''] 3) =
      [ustr_of ''A'', ustr_of ''C'', ustr_of ''D'', ustr_of ''B'']"
    by (simp add: client_defs demo_defs key_defs ustr_of_def letter_T_def)
  show ?thesis
    using route_start_midpoints_end [OF h1 h2 h3 h4 h5, where E = demo_env and w = "[]"] g
    by (auto split: prod.splits sum.splits)
qed

text \<open>
  C1. A conversation without state receives the command /weather, a text for the first
  city, a text for the last city, then either the skip button, or the add button and a
  text, or a text alone, and then one of the two forecast buttons; none of the texts is
  one of the three commands. The states before and after each of these updates are: no
  state, \<open>input_start\<close>, \<open>input_end\<close>, \<open>input_midpoints\<close> (once more after the add button),
  \<open>choose_forecast\<close>, no state. With the repetition of a state left out these are the
  five states in their order and the return to no state.
\<close>

theorem flow_visits_states_in_order:
  assumes "state s = None"
    and "command_name E c = Some ''weather''"
    and "is_city_text E a" and "is_city_text E b" and "is_city_text E m"
    and "mid \<in> {[CallbackQuery data_skip_midpoints],
                 [CallbackQuery data_add_midpoints, Message m], [Message m]}"
    and "d \<in> {data_3_days, data_5_days}"
  shows "states_visited E (s, w) ([Message c, Message a, Message b] @ mid @ [CallbackQuery d]) =
           [None, Some input_start, Some input_end] @
           replicate (length mid) (Some input_midpoints) @ [Some choose_forecast, None] \<and>
         remdups_adj (states_visited E (s, w)
             ([Message c, Message a, Message b] @ mid @ [CallbackQuery d])) =
           [None, Some input_start, Some input_end, Some input_midpoints,
            Some choose_forecast, None]"
proof -
  let ?s1 = "s\<lparr>state := Some input_start\<rparr>"
  let ?s2 = "?s1\<lparr>start_city := Some a, state := Some input_end\<rparr>"
  let ?s3 = "?s2\<lparr>end_city := Some b, state := Some input_midpoints\<rparr>"
  have d1: "fst (dispatch E (s, w) (Message c)) = (?s1, w)"
    using assms(2) by (simp del: dispatch.simps add: dispatch_weather)
  have d2: "fst (dispatch E (?s1, w) (Message a)) = (?s2, w)"
    using assms(3) by (simp del: dispatch.simps add: dispatch_start_city)
  have d3: "fst (dispatch E (?s2, w) (Message b)) = (?s3, w)"
    using assms(4) by (simp del: dispatch.simps add: dispatch_end_city)
  have last: "states_visited E (s', w) [CallbackQuery d] = [Some choose_forecast, None]"
    if "state s' = Some choose_forecast" "start_city s' = Some a" "end_city s' = Some b" for s'
    using dispatch_days_session [OF that(1) assms(7) that(2,3), of E w] that(1)
    by (simp del: dispatch.simps add: clear_def)
  have tail: "states_visited E (?s3, w) (mid @ [CallbackQuery d]) =
      replicate (length mid) (Some input_midpoints) @ [Some choose_forecast, None]"
  proof -
    consider (skipped) "mid = [CallbackQuery data_skip_midpoints]"
      | (added) "mid = [CallbackQuery data_add_midpoints, Message m]"
      | (plain) "mid = [Message m]"
      using assms(6) by auto
    then show ?thesis
    proof cases
      case skipped
      let ?s4 = "?s3\<lparr>midpoints := Some [], state := Some choose_forecast\<rparr>"
      have "fst (dispatch E (?s3, w) (CallbackQuery data_skip_midpoints)) = (?s4, w)"
        by (simp del: dispatch.simps add: dispatch_skip)
      moreover have "states_visited E (?s4, w) [CallbackQuery d] = [Some choose_forecast, None]"
        by (rule last) simp_all
      ultimately show ?thesis unfolding skipped by (simp del: dispatch.simps)
    next
      case added
      let ?s4 = "?s3\<lparr>midpoints := Some (parse_midpoints m), state := Some choose_forecast\<rparr>"
      have "fst (dispatch E (?s3, w) (CallbackQuery data_add_midpoints)) = (?s3, w)"
        by (simp del: dispatch.simps add: dispatch_add)
      moreover have "fst (dispatch E (?s3, w) (Message m)) = (?s4, w)"
        using assms(5) by (simp del: dispatch.simps add: dispatch_midpoints)
      moreover have "states_visited E (?s4, w) [CallbackQuery d] = [Some choose_forecast, None]"
        by (rule last) simp_all
      ultimately show ?thesis unfolding added by (simp del: dispatch.simps)
    next
      case plain
      let ?s4 = "?s3\<lparr>midpoints := Some (parse_midpoints m), state := Some choose_forecast\<rparr>"
      have "fst (dispatch E (?s3, w) (Message m)) = (?s4, w)"
        using assms(5) by (simp del: dispatch.simps add: dispatch_midpoints)
      moreover have "states_visited E (?s4, w) [CallbackQuery d] = [Some choose_forecast, None]"
        by (rule last) simp_all
      ultimately show ?thesis unfolding plain by (simp del: dispatch.simps)
    qed
  qed
  have tr: "states_visited E (s, w) ([Message c, Message a, Message b] @ mid @ [CallbackQuery d]) =
      [None, Some input_start, Some input_end] @
      replicate (length mid) (Some input_midpoints) @ [Some choose_forecast, None]"
    using assms(1) d1 d2 d3 tail by (simp del: dispatch.simps)
  have "0 < length mid" using assms(6) by auto
  then obtain k where k: "length mid = Suc k" by (cases "length mid") auto
  have rd: "remdups_adj (replicate (Suc k) x @ ys) = remdups_adj (x # ys)" for x :: "WeatherFlow option" and ys
    by (induction k) simp_all
  have "remdups_adj (states_visited E (s, w)
      ([Message c, Message a, Message b] @ mid @ [CallbackQuery d])) =
      [None, Some input_start, Some input_end, Some input_midpoints, Some choose_forecast, None]"
    unfolding tr k using rd [of "Some input_midpoints" "[Some choose_forecast, None]"]
    by simp
  with tr show ?thesis by (intro conjI)
qed

theorem flow_visits_states_in_order_witness:
  "states_visited demo_env (clear, [])
     [Message (ustr_of ''/weather''), Message (ustr_of ''Moscow''), Message (ustr_of ''Paris''),
      CallbackQuery data_add_midpoints, Message (ustr_of ''Minsk, Berlin''),
      CallbackQuery data_5_days] =
     [None, Some input_start, Some input_end, Some input_midpoints, Some input_midpoints,
      Some choose_forecast, None]"
proof -
  have c: "command_name demo_env = demo_command" by (simp add: demo_env_def)
  have h1: "state clear = None" by (simp add: clear_def)
  have h2: "command_name demo_env (ustr_of ''/weather'') = Some ''weather''"
    by (simp add: c demo_command_def ustr_of_def)
  have h3: "is_city_text demo_env (ustr_of ''Moscow'')"
    by (simp add: is_city_text_def c demo_command_def ustr_of_def)
  have h4: "is_city_text demo_env (ustr_of ''Paris'')"
    by (simp add: is_city_text_def c demo_command_def ustr_of_def)
  have h5: "is_city_text demo_env (ustr_of ''Minsk, Berlin'')"
    by (simp add: is_city_text_def c demo_command_def ustr_of_def)
  have h6: "[CallbackQuery data_add_midpoints, Message (ustr_of ''Minsk, Berlin'')] \<in>
      {[CallbackQuery data_skip_midpoints],
       [CallbackQuery data_add_midpoints, Message (ustr_of ''Minsk, Berlin'')],
       [Message (ustr_of ''Minsk, Berlin'')]}"
    by simp
  have h7: "data_5_days \<in> {data_3_days, data_5_days}" by simp
  show ?thesis
    using flow_visits_states_in_order [OF h1 h2 h3 h4 h5 h6 h7, of "[]"] by simp
qed

end
